theory Spec2Isabelle
  imports Complex_Main
begin

section \<open>Keyword retrieval pipeline of \<^verbatim>\<open>Kewords RAG/keyword_rag.py\<close>\<close>

text \<open>
  The development embeds the classes \<^verbatim>\<open>GoogleAdsKeywordExtractor\<close>,
  \<^verbatim>\<open>KeywordVectorStore\<close> and \<^verbatim>\<open>GPTKeywordRAG\<close>. Python objects are records that
  are passed in and returned; an exception is the \<open>Inl\<close> branch of a sum. Python floats
  are idealised as \<^typ>\<open>real\<close>: no rounding, no NaN, no infinities.
\<close>

subsection \<open>Exceptions\<close>

datatype error =
    ValueError string
  | IndexError
  | AssertionError
  | GoogleAdsException string
  | RuntimeError
  | UnpicklingError

subsection \<open>Python built-ins used by the source\<close>

text \<open>\<^verbatim>\<open>xs[i]\<close>: a negative index counts from the end, anything outside raises.\<close>

definition py_index :: "'a list \<Rightarrow> int \<Rightarrow> error + 'a" where
  "py_index xs i =
     (if 0 \<le> i \<and> i < int (length xs) then Inr (xs ! nat i)
      else if i < 0 \<and> - int (length xs) \<le> i then Inr (xs ! nat (int (length xs) + i))
      else Inl IndexError)"

text \<open>\<^verbatim>\<open>str(n)\<close> and the format specification \<^verbatim>\<open>{n:,}\<close> on integers.\<close>

fun digits :: "nat \<Rightarrow> string" where
  "digits n =
     (if n < 10 then [''0123456789'' ! n]
      else digits (n div 10) @ [''0123456789'' ! (n mod 10)])"

declare digits.simps [simp del]

definition str_int :: "int \<Rightarrow> string" where
  "str_int n = (if n < 0 then ''-'' @ digits (nat (- n)) else digits (nat n))"

fun group3 :: "string \<Rightarrow> string" where
  "group3 (a # b # c # e # rest) = a # b # c # CHR '','' # group3 (e # rest)"
| "group3 cs = cs"

definition fmt_thousands :: "int \<Rightarrow> string" where
  "fmt_thousands n =
     (if n < 0 then ''-'' @ rev (group3 (rev (digits (nat (- n)))))
      else rev (group3 (rev (digits (nat n)))))"

subsection \<open>The data model\<close>

record KeywordData =
  keyword :: string
  search_volume :: int
  competition :: string
  cpc_high :: real
  cpc_low :: real
  ad_impression_share :: real
  top_of_page_cpc_high :: real
  top_of_page_cpc_low :: real
  currency_code :: string
  timestamp :: int

subsection \<open>External collaborators\<close>

text \<open>
  What the source calls but does not define is a parameter: the sentence-embedding model
  (\<^verbatim>\<open>SentenceTransformer.encode\<close>, one row per text), Python's fixed-point float
  formatting (\<^verbatim>\<open>format(x, '.Nf')\<close>), the keyword-ideas service, which either raises
  \<^verbatim>\<open>GoogleAdsException\<close> (\<open>Inl\<close> its text) or answers the ideas, the clock
  (\<^verbatim>\<open>datetime.now()\<close> at the \<open>i\<close>-th idea of a response) and the chat-completion
  endpoint, which either raises (\<open>Inl\<close> the text of the exception) or answers (\<open>Inr\<close>
  the content of the first choice).
\<close>

text \<open>
  An idea as the keyword-ideas service returns it. A numeric field of the metrics may be
  unset, which is \<open>None\<close>.
\<close>

record KeywordIdeaMetrics =
  avg_monthly_searches :: "int option"
  competition_name :: string
  high_top_of_page_bid_micros :: "int option"
  low_top_of_page_bid_micros :: "int option"

record KeywordIdea =
  idea_text :: string
  keyword_idea_metrics :: KeywordIdeaMetrics

record GenerateKeywordIdeasRequest =
  request_customer_id :: string
  language :: string
  geo_target_constants :: "string list"
  keyword_seed :: "string list"
  keyword_plan_network :: string

record chat_request =
  model :: string
  system_content :: string
  user_content :: string
  max_tokens :: nat
  temperature :: real

record external =
  encode :: "string \<Rightarrow> real list"
  format_f :: "nat \<Rightarrow> real \<Rightarrow> string"
  generate_keyword_ideas :: "GenerateKeywordIdeasRequest \<Rightarrow> string + KeywordIdea list"
  datetime_now :: "nat \<Rightarrow> int"
  chat_completions_create :: "chat_request \<Rightarrow> string + string"

subsection \<open>The flat inner-product index of the faiss library\<close>

text \<open>
  \<^verbatim>\<open>faiss.IndexFlatIP\<close> is a library class. It is written out here the way the library
  documents it: the index holds \<open>ntotal\<close> vectors of dimension \<open>d\<close>; \<^verbatim>\<open>add\<close> and
  \<^verbatim>\<open>search\<close> assert that the dimension of their argument is \<open>d\<close>, and \<^verbatim>\<open>search\<close>
  that \<open>k\<close> is positive; \<^verbatim>\<open>search\<close> answers exactly \<open>k\<close> (score, label) pairs by
  decreasing inner product, and where fewer than \<open>k\<close> vectors qualify the remaining
  places hold the label \<open>-1\<close> and the lowest finite single-precision float as score. A
  stored vector enters the result only when its score exceeds that lowest value, which is
  what the result heap is initialised with. Among equal scores the model keeps insertion
  order; no theorem below depends on that choice.
\<close>

record IndexFlatIP =
  ix_d :: nat
  ix_xb :: "real list list"

definition FLT_MAX :: real where
  "FLT_MAX = 340282346638528859811704183484516925440"

definition normalize_L2 :: "real list \<Rightarrow> real list" where
  "normalize_L2 v =
     (let nr = sqrt (sum_list (map (\<lambda>x. x * x) v))
      in if 0 < nr then map (\<lambda>x. x / nr) v else v)"

definition inner_product :: "real list \<Rightarrow> real list \<Rightarrow> real" where
  "inner_product u v = sum_list (map (\<lambda>(a, b). a * b) (zip u v))"

definition index_add :: "IndexFlatIP \<Rightarrow> real list list \<Rightarrow> error + IndexFlatIP" where
  "index_add ix vs =
     (if list_all (\<lambda>v. length v = ix_d ix) vs
      then Inr (ix\<lparr>ix_xb := ix_xb ix @ vs\<rparr>)
      else Inl AssertionError)"

definition knn :: "IndexFlatIP \<Rightarrow> real list \<Rightarrow> nat \<Rightarrow> (real \<times> int) list" where
  "knn ix q k =
     (let scored = zip (map (inner_product q) (ix_xb ix)) (map int [0..<length (ix_xb ix)]);
          ranked = sort_key (\<lambda>(s, i). - s) (filter (\<lambda>(s, i). - FLT_MAX < s) scored);
          top = take k ranked
      in top @ replicate (k - length top) (- FLT_MAX, - 1))"

definition index_search ::
  "IndexFlatIP \<Rightarrow> real list \<Rightarrow> int \<Rightarrow> error + (real \<times> int) list" where
  "index_search ix q k =
     (if length q \<noteq> ix_d ix then Inl AssertionError
      else if k \<le> 0 then Inl AssertionError
      else Inr (knn ix q (nat k)))"

subsection \<open>KeywordVectorStore\<close>

record KeywordVectorStore =
  index :: "IndexFlatIP option"
  keyword_data :: "KeywordData list"
  embeddings :: "real list list"

text \<open>\<^verbatim>\<open>__init__\<close>: no index yet, no records, no embeddings.\<close>

definition KeywordVectorStore_init :: KeywordVectorStore where
  "KeywordVectorStore_init = \<lparr>index = None, keyword_data = [], embeddings = []\<rparr>"

text \<open>The text that \<^verbatim>\<open>add_keywords\<close> embeds for one record.\<close>

definition embedding_text :: "external \<Rightarrow> KeywordData \<Rightarrow> string" where
  "embedding_text ext kd =
     ''Keyword: '' @ keyword kd @ '' | Search Volume: '' @ str_int (search_volume kd)
     @ '' | Competition: '' @ competition kd
     @ '' | CPC: $'' @ format_f ext 2 (cpc_low kd) @ ''-$'' @ format_f ext 2 (cpc_high kd)"

text \<open>
  \<^verbatim>\<open>add_keywords\<close>. A raise is \<open>Inl\<close> of the exception and the store it leaves behind:
  the assignment of a new index to \<^verbatim>\<open>self.index\<close> comes before \<^verbatim>\<open>index.add\<close>, so it
  survives a failure of the latter. For an empty batch \<^verbatim>\<open>encode\<close> answers an array of
  shape \<open>(0,)\<close>, on which \<^verbatim>\<open>shape[1]\<close> raises \<^verbatim>\<open>IndexError\<close> (in the source's own
  line when there is no index yet, inside \<^verbatim>\<open>normalize_L2\<close> otherwise). The dimension
  of a non-empty batch is the length of its first row. The embedding model is a total
  function here; in the source its call comes before every assignment, so a raise
  inside it would leave the store as it was.
\<close>

definition add_keywords ::
  "external \<Rightarrow> KeywordVectorStore \<Rightarrow> KeywordData list
     \<Rightarrow> error \<times> KeywordVectorStore + KeywordVectorStore" where
  "add_keywords ext st keyword_data_list =
     (let texts = map (embedding_text ext) keyword_data_list;
          encoded = map (encode ext) texts
      in if encoded = [] then Inl (IndexError, st)
         else
           let dimension = length (hd encoded);
               ix = (case index st of None \<Rightarrow> \<lparr>ix_d = dimension, ix_xb = []\<rparr> | Some i \<Rightarrow> i);
               st1 = st\<lparr>index := Some ix\<rparr>;
               normalized = map normalize_L2 encoded
           in case index_add ix normalized of
                Inl e \<Rightarrow> Inl (e, st1)
              | Inr ix' \<Rightarrow>
                  Inr (st1\<lparr>index := Some ix',
                          keyword_data := keyword_data st1 @ keyword_data_list,
                          embeddings := embeddings st1 @ normalized\<rparr>))"

text \<open>The loop of \<^verbatim>\<open>search\<close> over \<^verbatim>\<open>zip(scores[0], indices[0])\<close>.\<close>

fun collect ::
  "KeywordData list \<Rightarrow> (real \<times> int) list \<Rightarrow> error + (KeywordData \<times> real) list" where
  "collect kds [] = Inr []"
| "collect kds ((score, idx) # rest) =
     (if idx < int (length kds) then
        (case py_index kds idx of
           Inl e \<Rightarrow> Inl e
         | Inr kd \<Rightarrow>
             (case collect kds rest of
                Inl e \<Rightarrow> Inl e
              | Inr results \<Rightarrow> Inr ((kd, score) # results)))
      else collect kds rest)"

definition search ::
  "external \<Rightarrow> KeywordVectorStore \<Rightarrow> string \<Rightarrow> int \<Rightarrow> error + (KeywordData \<times> real) list" where
  "search ext st query k =
     (case index st of
        None \<Rightarrow> Inr []
      | Some ix \<Rightarrow>
          if length (keyword_data st) = 0 then Inr []
          else
            let query_embedding = normalize_L2 (encode ext query)
            in case index_search ix query_embedding k of
                 Inl e \<Rightarrow> Inl e
               | Inr hits \<Rightarrow> collect (keyword_data st) hits)"

text \<open>
  A run of \<^verbatim>\<open>add_keywords\<close> calls on a new store: the store after the last call, whether
  the calls returned or raised.
\<close>

definition after_add ::
  "external \<Rightarrow> KeywordVectorStore \<Rightarrow> KeywordData list \<Rightarrow> KeywordVectorStore" where
  "after_add ext st batch =
     (case add_keywords ext st batch of Inl (e, st') \<Rightarrow> st' | Inr st' \<Rightarrow> st')"

definition run_adds :: "external \<Rightarrow> KeywordData list list \<Rightarrow> KeywordVectorStore" where
  "run_adds ext batches = foldl (after_add ext) KeywordVectorStore_init batches"

definition index_vectors :: "KeywordVectorStore \<Rightarrow> real list list" where
  "index_vectors st = (case index st of None \<Rightarrow> [] | Some ix \<Rightarrow> ix_xb ix)"

definition record_vector :: "external \<Rightarrow> KeywordData \<Rightarrow> real list" where
  "record_vector ext kd = normalize_L2 (encode ext (embedding_text ext kd))"

subsection \<open>Saving and loading\<close>

text \<open>
  The file system is a map from file names to contents, and every write succeeds. A file
  is what \<^verbatim>\<open>faiss.write_index\<close> wrote (the index itself), what \<^verbatim>\<open>pickle.dump\<close>
  wrote for the dictionary of \<^verbatim>\<open>save\<close> (its two entries), or anything else, on which
  the reader raises. Both serialisations give back what was written.
\<close>

datatype stored_file =
    IndexFile IndexFlatIP
  | PickleFile "KeywordData list" "real list list"
  | OtherFile

type_synonym disk = "string \<Rightarrow> stored_file option"

definition save :: "disk \<Rightarrow> KeywordVectorStore \<Rightarrow> string \<Rightarrow> disk" where
  "save dk st path =
     (let dk1 = (case index st of
                   None \<Rightarrow> dk
                 | Some ix \<Rightarrow> dk(path @ ''.index'' \<mapsto> IndexFile ix))
      in dk1(path @ ''.pkl'' \<mapsto> PickleFile (keyword_data st) (embeddings st)))"

text \<open>
  \<^verbatim>\<open>load\<close> has two guards, one for each file. A raise is \<open>Inl\<close> of the exception and
  the store left behind: an index read before the pickle fails stays assigned.
\<close>

definition load ::
  "disk \<Rightarrow> KeywordVectorStore \<Rightarrow> string \<Rightarrow> error \<times> KeywordVectorStore + KeywordVectorStore" where
  "load dk st path =
     (case (case dk (path @ ''.index'') of
              None \<Rightarrow> Inr st
            | Some (IndexFile ix) \<Rightarrow> Inr (st\<lparr>index := Some ix\<rparr>)
            | Some _ \<Rightarrow> Inl (RuntimeError, st)) of
        Inl r \<Rightarrow> Inl r
      | Inr st1 \<Rightarrow>
          (case dk (path @ ''.pkl'') of
             None \<Rightarrow> Inr st1
           | Some (PickleFile kds embs) \<Rightarrow> Inr (st1\<lparr>keyword_data := kds, embeddings := embs\<rparr>)
           | Some _ \<Rightarrow> Inl (UnpicklingError, st1)))"

subsection \<open>GoogleAdsKeywordExtractor\<close>

record GoogleAdsKeywordExtractor =
  customer_id :: "string option"

definition GoogleAdsKeywordExtractor_init :: GoogleAdsKeywordExtractor where
  "GoogleAdsKeywordExtractor_init = \<lparr>customer_id = None\<rparr>"

definition set_customer_id ::
  "GoogleAdsKeywordExtractor \<Rightarrow> string \<Rightarrow> GoogleAdsKeywordExtractor" where
  "set_customer_id ex cid = ex\<lparr>customer_id := Some (filter (\<lambda>c. c \<noteq> CHR ''-'') cid)\<rparr>"

text \<open>\<^verbatim>\<open>x or 0\<close> and \<^verbatim>\<open>x / 1_000_000 if x else 0\<close>: unset and zero are both false.\<close>

definition or_zero :: "int option \<Rightarrow> int" where
  "or_zero x = (case x of None \<Rightarrow> 0 | Some n \<Rightarrow> if n \<noteq> 0 then n else 0)"

definition micros_if_set :: "int option \<Rightarrow> real" where
  "micros_if_set x =
     (case x of None \<Rightarrow> 0 | Some n \<Rightarrow> if n \<noteq> 0 then real_of_int n / 1000000 else 0)"

definition keyword_data_of_idea :: "int \<Rightarrow> KeywordIdea \<Rightarrow> KeywordData" where
  "keyword_data_of_idea now idea =
     \<lparr>keyword = idea_text idea,
      search_volume = or_zero (avg_monthly_searches (keyword_idea_metrics idea)),
      competition = competition_name (keyword_idea_metrics idea),
      cpc_high = micros_if_set (high_top_of_page_bid_micros (keyword_idea_metrics idea)),
      cpc_low = micros_if_set (low_top_of_page_bid_micros (keyword_idea_metrics idea)),
      ad_impression_share = 0,
      top_of_page_cpc_high = micros_if_set (high_top_of_page_bid_micros (keyword_idea_metrics idea)),
      top_of_page_cpc_low = micros_if_set (low_top_of_page_bid_micros (keyword_idea_metrics idea)),
      currency_code = ''USD'',
      timestamp = now\<rparr>"

definition ideas_request ::
  "string \<Rightarrow> string list \<Rightarrow> string list option \<Rightarrow> string \<Rightarrow> GenerateKeywordIdeasRequest" where
  "ideas_request cid keywords location_ids language_id =
     \<lparr>request_customer_id = cid,
      language = ''languageConstants/'' @ language_id,
      geo_target_constants =
        (case location_ids of
           None \<Rightarrow> []
         | Some locs \<Rightarrow> map (\<lambda>loc. ''geoTargetConstants/'' @ loc) locs),
      keyword_seed = keywords,
      keyword_plan_network = ''GOOGLE_SEARCH''\<rparr>"

text \<open>
  \<^verbatim>\<open>get_keyword_ideas\<close> answers its result together with the requests it sent to the
  service, in order.
\<close>

definition get_keyword_ideas ::
  "external \<Rightarrow> GoogleAdsKeywordExtractor \<Rightarrow> string list \<Rightarrow> string list option \<Rightarrow> string
     \<Rightarrow> (error + KeywordData list) \<times> GenerateKeywordIdeasRequest list" where
  "get_keyword_ideas ext ex keywords location_ids language_id =
     (case customer_id ex of
        None \<Rightarrow> (Inl (ValueError ''Customer ID must be set before making API calls''), [])
      | Some cid \<Rightarrow>
          if cid = [] then
            (Inl (ValueError ''Customer ID must be set before making API calls''), [])
          else
            let request = ideas_request cid keywords location_ids language_id
            in case generate_keyword_ideas ext request of
                 Inl ex_text \<Rightarrow> (Inl (GoogleAdsException ex_text), [request])
               | Inr response \<Rightarrow>
                   (Inr (map (\<lambda>(i, idea). keyword_data_of_idea (datetime_now ext i) idea)
                           (zip [0..<length response] response)),
                    [request]))"

subsection \<open>GPTKeywordRAG\<close>

text \<open>
  The methods below read \<^verbatim>\<open>self.vector_store\<close> and \<^verbatim>\<open>self.client\<close> only; the store
  is their argument and the client is the chat-completion endpoint of the collaborators.
\<close>

definition context_entry :: "external \<Rightarrow> nat \<times> KeywordData \<times> real \<Rightarrow> string" where
  "context_entry ext = (\<lambda>(i, kd, score).
     str_int (int i) @ ''. Keyword: '' @ [CHR 0x27] @ keyword kd @ [CHR 0x27, CHR 0x0A]
     @ ''   - Search Volume: '' @ fmt_thousands (search_volume kd) @ '' monthly searches''
     @ [CHR 0x0A]
     @ ''   - Competition: '' @ competition kd @ [CHR 0x0A]
     @ ''   - CPC Range: $'' @ format_f ext 2 (cpc_low kd) @ '' - $''
     @ format_f ext 2 (cpc_high kd) @ [CHR 0x0A]
     @ ''   - Relevance Score: '' @ format_f ext 3 score @ [CHR 0x0A, CHR 0x0A])"

definition format_keyword_context :: "external \<Rightarrow> (KeywordData \<times> real) list \<Rightarrow> string" where
  "format_keyword_context ext keyword_results =
     (if keyword_results = [] then ''No relevant keyword data found.''
      else ''Relevant Keyword Data:'' @ [CHR 0x0A, CHR 0x0A]
           @ concat (map (context_entry ext)
                       (zip [1..<Suc (length keyword_results)] keyword_results)))"

definition system_prompt :: string where
  "system_prompt =
     ''You are an expert digital marketing analyst with access to Google Ads keyword data. ''
     @ [CHR 0x0A]
     @ ''        Use the provided keyword data to answer questions about search volume, ''
     @ ''competition, costs, and marketing opportunities.'' @ [CHR 0x0A]
     @ ''        '' @ [CHR 0x0A]
     @ ''        Provide specific, data-driven insights based on the keyword metrics. ''
     @ ''When making recommendations, '' @ [CHR 0x0A]
     @ ''        consider search volume, competition levels, and cost-per-click data.''
     @ [CHR 0x0A]
     @ ''        '' @ [CHR 0x0A]
     @ ''        If asked about keywords not in the data, suggest related alternatives ''
     @ ''from the available data.''"

definition user_prompt :: "string \<Rightarrow> string \<Rightarrow> bool \<Rightarrow> string" where
  "user_prompt user_query keyword_context include_recommendations =
     ''User Query: '' @ user_query @ [CHR 0x0A, CHR 0x0A]
     @ keyword_context @ [CHR 0x0A, CHR 0x0A]
     @ ''Please provide a comprehensive answer based on the keyword data above.''
     @ (if include_recommendations then
          [CHR 0x0A, CHR 0x0A]
          @ ''Include strategic recommendations for keyword targeting and campaign ''
          @ ''optimization.''
        else [])"

text \<open>
  \<^verbatim>\<open>query\<close> in two parts. What comes before the \<^verbatim>\<open>try\<close> statement builds the request
  and can raise what \<^verbatim>\<open>search\<close> raises; the \<^verbatim>\<open>try\<close> statement sends the request and
  turns every exception into the returned text.
\<close>

definition query_request ::
  "external \<Rightarrow> KeywordVectorStore \<Rightarrow> string \<Rightarrow> int \<Rightarrow> bool \<Rightarrow> error + chat_request" where
  "query_request ext st user_query max_keywords include_recommendations =
     (case search ext st user_query max_keywords of
        Inl e \<Rightarrow> Inl e
      | Inr keyword_results \<Rightarrow>
          Inr \<lparr>model = ''gpt-4'',
               system_content = system_prompt,
               user_content =
                 user_prompt user_query (format_keyword_context ext keyword_results)
                   include_recommendations,
               max_tokens = 1500,
               temperature = 7 / 10\<rparr>)"

definition query ::
  "external \<Rightarrow> KeywordVectorStore \<Rightarrow> string \<Rightarrow> int \<Rightarrow> bool \<Rightarrow> error + string" where
  "query ext st user_query max_keywords include_recommendations =
     (case query_request ext st user_query max_keywords include_recommendations of
        Inl e \<Rightarrow> Inl e
      | Inr request \<Rightarrow>
          (case chat_completions_create ext request of
             Inl e \<Rightarrow> Inr (''Error generating response: '' @ e)
           | Inr content \<Rightarrow> Inr content))"

text \<open>
  \<^verbatim>\<open>get_keyword_stats\<close>. The dictionary is the list of its items in insertion order.
  The pandas reductions are written out: the mean, the median (the middle value, or the
  mean of the two middle values), and \<^verbatim>\<open>value_counts\<close> (each value with its number of
  occurrences, by decreasing count, equal counts by first appearance).
\<close>

datatype stat = IntStat int | FloatStat real | DictStat "(string \<times> nat) list"

definition mean :: "real list \<Rightarrow> real" where
  "mean xs = sum_list xs / real (length xs)"

definition median :: "real list \<Rightarrow> real" where
  "median xs =
     (let s = sort xs; n = length s
      in if odd n then s ! (n div 2) else (s ! (n div 2 - 1) + s ! (n div 2)) / 2)"

definition value_counts :: "string list \<Rightarrow> (string \<times> nat) list" where
  "value_counts xs =
     sort_key (\<lambda>(v, c). - int c) (map (\<lambda>v. (v, count_list xs v)) (rev (remdups (rev xs))))"

definition get_keyword_stats :: "KeywordVectorStore \<Rightarrow> (string \<times> stat) list" where
  "get_keyword_stats st =
     (if keyword_data st = [] then [(''total_keywords'', IntStat 0)]
      else
        let df = keyword_data st
        in [(''total_keywords'', IntStat (int (length df))),
            (''avg_search_volume'', FloatStat (mean (map (\<lambda>kd. real_of_int (search_volume kd)) df))),
            (''median_search_volume'',
               FloatStat (median (map (\<lambda>kd. real_of_int (search_volume kd)) df))),
            (''avg_cpc'', FloatStat (mean (map cpc_high df))),
            (''competition_distribution'', DictStat (value_counts (map competition df))),
            (''high_volume_keywords'',
               IntStat (int (length (filter (\<lambda>kd. 10000 < search_volume kd) df)))),
            (''low_competition_keywords'',
               IntStat (int (length (filter (\<lambda>kd. competition kd = ''LOW'') df))))])"

subsection \<open>Example objects\<close>

text \<open>
  Concrete collaborators, records, stores and disks at which the theorems are evaluated.
  The example embedding model maps every text to the same vector of dimension one, and
  the example formatter prints the same text for every number; the example service
  answers one idea whose high bid is 2500000 micros and whose other numbers are unset.
\<close>

definition example_idea :: KeywordIdea where
  "example_idea =
     \<lparr>idea_text = ''seo services'',
      keyword_idea_metrics =
        \<lparr>avg_monthly_searches = None, competition_name = ''LOW'',
         high_top_of_page_bid_micros = Some 2500000,
         low_top_of_page_bid_micros = None\<rparr>\<rparr>"

definition example_external :: external where
  "example_external =
     \<lparr>encode = (\<lambda>s. [1]),
      format_f = (\<lambda>n x. ''0''),
      generate_keyword_ideas = (\<lambda>r. Inr [example_idea]),
      datetime_now = (\<lambda>i. 0),
      chat_completions_create = (\<lambda>r. Inl ''Connection error.'')\<rparr>"

definition example_record :: KeywordData where
  "example_record = keyword_data_of_idea 0 example_idea"

definition example_store :: KeywordVectorStore where
  "example_store =
     \<lparr>index = Some \<lparr>ix_d = 1, ix_xb = [[1]]\<rparr>, keyword_data = [example_record],
      embeddings = [[1]]\<rparr>"

definition example_record_ppc :: KeywordData where
  "example_record_ppc = example_record\<lparr>keyword := ''ppc''\<rparr>"

text \<open>
  A second embedding model of dimension one, which tells the record of the keyword
  \<^verbatim>\<open>ppc\<close> from every other text, and a third of dimension two.
\<close>

definition example_external_signed :: external where
  "example_external_signed =
     example_external\<lparr>encode := (\<lambda>s. if take 12 s = ''Keyword: ppc'' then [- 1] else [1])\<rparr>"

definition example_external_2d :: external where
  "example_external_2d = example_external\<lparr>encode := (\<lambda>s. [1, 0])\<rparr>"

definition example_store_two :: KeywordVectorStore where
  "example_store_two =
     \<lparr>index = Some \<lparr>ix_d = 1, ix_xb = [[- 1], [1]]\<rparr>,
      keyword_data = [example_record_ppc, example_record],
      embeddings = [[- 1], [1]]\<rparr>"

definition disk_index_only :: disk where
  "disk_index_only = Map.empty(''keyword_store.index'' \<mapsto> IndexFile \<lparr>ix_d = 1, ix_xb = [[1]]\<rparr>)"

definition disk_pickle_only :: disk where
  "disk_pickle_only = Map.empty(''keyword_store.pkl'' \<mapsto> PickleFile [example_record] [[1]])"

section \<open>Theorems\<close>

subsection \<open>The store and its index stay paired\<close>

lemma after_add_paired:
  assumes "index_vectors st = map (record_vector ext) (keyword_data st)"
    and "embeddings st = index_vectors st"
  shows "index_vectors (after_add ext st batch) =
           map (record_vector ext) (keyword_data (after_add ext st batch))
         \<and> embeddings (after_add ext st batch) = index_vectors (after_add ext st batch)"
proof (cases "index st")
  case None
  with assms show ?thesis
    by (auto simp: after_add_def add_keywords_def index_add_def index_vectors_def
        record_vector_def Let_def comp_def split: sum.splits if_splits)
next
  case (Some ix)
  with assms show ?thesis
    by (auto simp: after_add_def add_keywords_def index_add_def index_vectors_def
        record_vector_def Let_def comp_def split: sum.splits if_splits)
qed

lemma foldl_after_add_paired:
  assumes "index_vectors st = map (record_vector ext) (keyword_data st)"
    and "embeddings st = index_vectors st"
  shows "index_vectors (foldl (after_add ext) st batches) =
           map (record_vector ext) (keyword_data (foldl (after_add ext) st batches))
         \<and> embeddings (foldl (after_add ext) st batches) =
             index_vectors (foldl (after_add ext) st batches)"
  using assms
proof (induction batches arbitrary: st)
  case Nil
  then show ?case by simp
next
  case (Cons b bs)
  from after_add_paired [OF Cons.prems, of b]
  show ?case by (simp add: Cons.IH)
qed

lemma run_adds_snoc:
  "run_adds ext (batches @ [batch]) = after_add ext (run_adds ext batches) batch"
  by (simp add: run_adds_def)

text \<open>
  C1. Start from a new store and make any number of \<^verbatim>\<open>add_keywords\<close> calls, with
  any batches. After the last call (so after each call, every prefix of a run being a
  run) the store holds as many records as the index holds vectors, the vector at
  position \<open>i\<close> of the index is the normalised embedding of the record at position \<open>i\<close>,
  and the list \<^verbatim>\<open>self.embeddings\<close> holds the same vectors in the same order.
\<close>

theorem add_keywords_keeps_records_and_vectors_paired:
  "length (keyword_data (run_adds ext batches)) = length (index_vectors (run_adds ext batches))
   \<and> index_vectors (run_adds ext batches) =
       map (record_vector ext) (keyword_data (run_adds ext batches))
   \<and> embeddings (run_adds ext batches) = index_vectors (run_adds ext batches)"
proof -
  have "index_vectors KeywordVectorStore_init =
          map (record_vector ext) (keyword_data KeywordVectorStore_init)"
    and "embeddings KeywordVectorStore_init = index_vectors KeywordVectorStore_init"
    by (simp_all add: KeywordVectorStore_init_def index_vectors_def)
  from foldl_after_add_paired [OF this, of batches]
  have p: "index_vectors (run_adds ext batches) =
             map (record_vector ext) (keyword_data (run_adds ext batches))"
    and e: "embeddings (run_adds ext batches) = index_vectors (run_adds ext batches)"
    by (simp_all add: run_adds_def)
  from p have "length (index_vectors (run_adds ext batches)) =
                 length (keyword_data (run_adds ext batches))"
    by simp
  with p e show ?thesis by simp
qed

subsection \<open>Searching a store that holds nothing\<close>

text \<open>
  C3. On a store to which nothing was added or loaded, \<^verbatim>\<open>search\<close> returns the empty
  list for every query and every \<open>k\<close>; it raises nothing.
\<close>

theorem search_empty_store: "search ext KeywordVectorStore_init q k = Inr []"
  by (simp add: search_def KeywordVectorStore_init_def)

subsection \<open>Facts about the example objects\<close>

lemma example_store_by_add:
  "run_adds example_external [[example_record]] = example_store"
  by (simp add: run_adds_def after_add_def add_keywords_def example_external_def
      KeywordVectorStore_init_def example_store_def index_add_def normalize_L2_def Let_def)

lemma knn_example:
  "knn \<lparr>ix_d = n, ix_xb = [[1]]\<rparr> [1] 2 = [(1, 0), (- FLT_MAX, - 1)]"
  by (simp add: knn_def inner_product_def FLT_MAX_def Let_def)

lemma search_example:
  "search example_external example_store q 2 =
     Inr [(example_record, 1), (example_record, - FLT_MAX)]"
  by (simp add: search_def example_store_def example_external_def index_search_def
      normalize_L2_def knn_example py_index_def Let_def)

lemma embedding_text_examples:
  "take 12 (embedding_text ext example_record_ppc) = ''Keyword: ppc''"
  "take 12 (embedding_text ext example_record) = ''Keyword: seo''"
  by (simp_all add: embedding_text_def example_record_ppc_def example_record_def
      keyword_data_of_idea_def example_idea_def)

lemma example_store_two_by_add:
  "run_adds example_external_signed [[example_record_ppc, example_record]] = example_store_two"
  by (simp add: run_adds_def after_add_def add_keywords_def example_external_signed_def
      embedding_text_examples
      KeywordVectorStore_init_def example_store_two_def index_add_def normalize_L2_def Let_def)

lemma knn_example_two:
  "knn \<lparr>ix_d = n, ix_xb = [[- 1], [1]]\<rparr> [1] 2 = [(1, 1), (- 1, 0)]"
  by (simp add: knn_def inner_product_def FLT_MAX_def Let_def)

lemma search_example_two:
  "search example_external_signed example_store_two ''seo'' 2 =
     Inr [(example_record, 1), (example_record_ppc, - 1)]"
  by (simp add: search_def example_store_two_def example_external_signed_def index_search_def
      normalize_L2_def knn_example_two py_index_def Let_def)

subsection \<open>The dimension of the index\<close>

text \<open>
  With an embedding model of one dimension \<open>n\<close> for all texts, every store reached by
  \<^verbatim>\<open>add_keywords\<close> calls has an index of dimension \<open>n\<close>, if it has one: such
  stores meet the second hypothesis of the theorem on \<^verbatim>\<open>search\<close> for every query.
\<close>

lemma after_add_empty: "after_add ext st [] = st"
  by (simp add: after_add_def add_keywords_def)

lemma after_add_index:
  assumes "batch \<noteq> []"
  shows "\<exists>vs. index (after_add ext st batch) =
           Some \<lparr>ix_d = (case index st of
                           None \<Rightarrow> length (encode ext (embedding_text ext (hd batch)))
                         | Some i \<Rightarrow> ix_d i),
                 ix_xb = vs\<rparr>"
proof -
  define encoded where "encoded = map (encode ext) (map (embedding_text ext) batch)"
  define ix where "ix = (case index st of
      None \<Rightarrow> \<lparr>ix_d = length (hd encoded), ix_xb = []\<rparr> | Some i \<Rightarrow> i)"
  from assms have ne: "encoded \<noteq> []" by (simp add: encoded_def)
  from assms have hd: "hd encoded = encode ext (embedding_text ext (hd batch))"
    by (simp add: encoded_def hd_map)
  have d: "ix_d ix = (case index st of
                        None \<Rightarrow> length (encode ext (embedding_text ext (hd batch)))
                      | Some i \<Rightarrow> ix_d i)"
    by (cases "index st") (simp_all add: ix_def hd)
  have a: "add_keywords ext st batch =
        (case index_add ix (map normalize_L2 encoded) of
           Inl e \<Rightarrow> Inl (e, st\<lparr>index := Some ix\<rparr>)
         | Inr ix' \<Rightarrow>
             Inr (st\<lparr>index := Some ix',
                     keyword_data := keyword_data st @ batch,
                     embeddings := embeddings st @ map normalize_L2 encoded\<rparr>))"
    unfolding add_keywords_def Let_def encoded_def [symmetric]
    using ne by (simp add: ix_def split: sum.splits)
  have r: "\<exists>vs. Some i = Some \<lparr>ix_d = m, ix_xb = vs\<rparr>" if "ix_d i = m" for i m
    using that by (cases i) simp
  show ?thesis
  proof (cases "index_add ix (map normalize_L2 encoded)")
    case (Inl e)
    with a have "index (after_add ext st batch) = Some ix"
      by (simp add: after_add_def)
    with r [OF d] show ?thesis by simp
  next
    case (Inr ix')
    with a have i: "index (after_add ext st batch) = Some ix'"
      by (simp add: after_add_def)
    from Inr have "ix_d ix' = ix_d ix"
      by (auto simp: index_add_def split: if_splits)
    with d have "ix_d ix' = (case index st of
                        None \<Rightarrow> length (encode ext (embedding_text ext (hd batch)))
                      | Some i \<Rightarrow> ix_d i)"
      by simp
    from r [OF this] i show ?thesis by simp
  qed
qed

lemma after_add_dimension:
  assumes "\<forall>s. length (encode ext s) = n"
    and "\<forall>ix. index st = Some ix \<longrightarrow> ix_d ix = n"
  shows "\<forall>ix. index (after_add ext st batch) = Some ix \<longrightarrow> ix_d ix = n"
proof (cases "batch = []")
  case True
  with assms(2) show ?thesis by (simp add: after_add_empty)
next
  case False
  from after_add_index [OF False, of ext st] obtain vs where
    "index (after_add ext st batch) =
       Some \<lparr>ix_d = (case index st of
                       None \<Rightarrow> length (encode ext (embedding_text ext (hd batch)))
                     | Some i \<Rightarrow> ix_d i),
             ix_xb = vs\<rparr>" ..
  with assms show ?thesis by (cases "index st") simp_all
qed

lemma run_adds_dimension:
  assumes "\<forall>s. length (encode ext s) = n"
  shows "\<forall>ix. index (run_adds ext batches) = Some ix \<longrightarrow> ix_d ix = n"
proof -
  have step: "(\<forall>ix. index st = Some ix \<longrightarrow> ix_d ix = n)
        \<Longrightarrow> \<forall>ix. index (foldl (after_add ext) st batches) = Some ix \<longrightarrow> ix_d ix = n" for st
  proof (induction batches arbitrary: st)
    case Nil
    then show ?case by simp
  next
    case (Cons b bs)
    have "\<forall>ix. index (after_add ext st b) = Some ix \<longrightarrow> ix_d ix = n"
      by (rule after_add_dimension [OF assms Cons.prems])
    from Cons.IH [OF this] show ?case by simp
  qed
  have "\<forall>ix. index KeywordVectorStore_init = Some ix \<longrightarrow> ix_d ix = n"
    by (simp add: KeywordVectorStore_init_def)
  from step [OF this] show ?thesis by (simp only: run_adds_def)
qed

subsection \<open>What \<^verbatim>\<open>search\<close> returns\<close>

lemma length_normalize_L2: "length (normalize_L2 v) = length v"
  by (simp add: normalize_L2_def Let_def)

lemma sorted_desc_sort_key:
  "sorted_wrt (\<ge>) (map fst (sort_key (\<lambda>(s, i). - s) (xs :: (real \<times> int) list)))"
proof -
  have "sorted (map (\<lambda>(s, i). - s) (sort_key (\<lambda>(s, i). - s) xs))"
    by (rule sorted_sort_key)
  then have "sorted_wrt (\<lambda>a b. (case a of (s, i) \<Rightarrow> - s) \<le> (case b of (s, i) \<Rightarrow> - s))
               (sort_key (\<lambda>(s, i). - s) xs)"
    by (simp add: sorted_wrt_map)
  then have "sorted_wrt (\<lambda>a b. fst a \<ge> fst b) (sort_key (\<lambda>(s, i). - s) xs)"
    by (rule sorted_wrt_mono_rel [rotated]) (auto simp: case_prod_beta)
  then show ?thesis by (simp add: sorted_wrt_map)
qed

lemma length_knn: "length (knn ix q k) = k"
  by (simp add: knn_def Let_def)

lemma knn_sorted: "sorted_wrt (\<ge>) (map fst (knn ix q k))"
proof -
  let ?ranked = "sort_key (\<lambda>(s, i). - s) (filter (\<lambda>(s, i). - FLT_MAX < s)
     (zip (map (inner_product q) (ix_xb ix)) (map int [0..<length (ix_xb ix)])))"
  have s: "sorted_wrt (\<ge>) (map fst (take k ?ranked))"
    using sorted_desc_sort_key [THEN sorted_wrt_take, of k]
    by (simp add: take_map)
  have "set (take k ?ranked) \<subseteq> set ?ranked" by (rule set_take_subset)
  then have "\<forall>x \<in> set (take k ?ranked). - FLT_MAX < fst x"
    by auto
  then have "\<forall>x \<in> set (take k ?ranked). - FLT_MAX \<le> fst x"
    by (simp add: less_imp_le)
  moreover have "sorted_wrt (\<ge>) (replicate (k - length (take k ?ranked)) (- FLT_MAX))"
    by (induction "k - length (take k ?ranked)") (auto simp: sorted_wrt_iff_nth_less)
  ultimately show ?thesis using s
    unfolding knn_def Let_def
    by (simp add: sorted_wrt_append)
qed

lemma knn_labels: "(s, i) \<in> set (knn ix q k) \<Longrightarrow> - 1 \<le> i"
proof -
  let ?ranked = "sort_key (\<lambda>(s, i). - s) (filter (\<lambda>(s, i). - FLT_MAX < s)
     (zip (map (inner_product q) (ix_xb ix)) (map int [0..<length (ix_xb ix)])))"
  assume a: "(s, i) \<in> set (knn ix q k)"
  have "set (take k ?ranked) \<subseteq> set ?ranked" by (rule set_take_subset)
  moreover have "\<forall>x \<in> set ?ranked. 0 \<le> snd x"
    by (auto dest!: set_zip_rightD)
  ultimately have "\<forall>x \<in> set (take k ?ranked). 0 \<le> snd x" by blast
  with a show ?thesis by (fastforce simp: knn_def Let_def)
qed

lemma py_index_from_minus_one:
  assumes "kds \<noteq> []" and "- 1 \<le> i" and "i < int (length kds)"
  shows "\<exists>x. py_index kds i = Inr x"
proof -
  from assms(1) have "1 \<le> int (length kds)" by (cases kds) simp_all
  with assms(2,3) show ?thesis by (simp add: py_index_def)
qed

lemma collect_returns:
  assumes "kds \<noteq> []" and "\<forall>(s, i) \<in> set hits. - 1 \<le> i"
  shows "\<exists>rs. collect kds hits = Inr rs"
  using assms(2)
proof (induction hits)
  case Nil
  then show ?case by simp
next
  case (Cons h hits)
  obtain score idx where h: "h = (score, idx)" by (cases h)
  from Cons obtain rs where rs: "collect kds hits = Inr rs" by auto
  show ?case
  proof (cases "idx < int (length kds)")
    case True
    from Cons.prems h have "- 1 \<le> idx" by simp
    from py_index_from_minus_one [OF assms(1) this True]
    obtain x where "py_index kds idx = Inr x" ..
    with True h rs show ?thesis by simp
  next
    case False
    with h rs show ?thesis by simp
  qed
qed

lemma collect_sorted:
  assumes "collect kds hits = Inr rs" and "sorted_wrt (\<ge>) (map fst hits)"
  shows "length rs \<le> length hits \<and> snd ` set rs \<subseteq> fst ` set hits
         \<and> sorted_wrt (\<ge>) (map snd rs)"
  using assms
proof (induction hits arbitrary: rs)
  case Nil
  then show ?case by simp
next
  case (Cons h hits)
  obtain score idx where h: "h = (score, idx)" by (cases h)
  show ?case
  proof (cases "idx < int (length kds)")
    case False
    with Cons h show ?thesis by (auto simp: le_SucI)
  next
    case True
    with Cons.prems h obtain kd rs' where
      r: "collect kds hits = Inr rs'" "rs = (kd, score) # rs'"
      by (auto split: sum.splits)
    from Cons.IH [OF r(1)] Cons.prems(2)
    have ih: "length rs' \<le> length hits" "snd ` set rs' \<subseteq> fst ` set hits"
      "sorted_wrt (\<ge>) (map snd rs')"
      by simp_all
    from Cons.prems(2) h have "\<forall>x \<in> fst ` set hits. x \<le> score" by auto
    with ih(2) have "\<forall>x \<in> set rs'. snd x \<le> score" by blast
    with ih show ?thesis using r h by auto
  qed
qed

text \<open>
  C2, as stated, fails: not every index state answers a search. \<^verbatim>\<open>load\<close> takes the
  index file as it is, with no check of its dimension against the embedding model. The
  store below was built with a model of dimension one, saved, and loaded into a new
  store; with a model of dimension two \<^verbatim>\<open>search\<close> on it raises the assertion of the
  index, for a positive \<open>k\<close>.
\<close>

theorem search_dimension_mismatch_counterexample:
  "load (save Map.empty (run_adds example_external [[example_record]]) ''keyword_store'')
     KeywordVectorStore_init ''keyword_store'' = Inr example_store
   \<and> (0::int) < 2
   \<and> search example_external_2d example_store ''seo'' 2 = Inl AssertionError"
  by (simp add: example_store_by_add load_def save_def KeywordVectorStore_init_def)
     (simp add: search_def example_store_def example_external_2d_def index_search_def
       normalize_L2_def Let_def)

text \<open>
  C2, amended. Let \<open>k\<close> be positive and let the embedding of the query have the
  dimension of the index, where the store has one. Then \<^verbatim>\<open>search\<close> returns, and what
  it returns has at most \<open>k\<close> entries whose scores never increase from one entry to the
  next. The instance after the theorem is a store of two records whose second record
  scores higher than its first: the result has the second record first.
\<close>

theorem search_at_most_k_sorted:
  assumes "0 < k"
    and "\<forall>ix. index st = Some ix \<longrightarrow> ix_d ix = length (encode ext q)"
  shows "\<exists>rs. search ext st q k = Inr rs \<and> int (length rs) \<le> k
          \<and> sorted_wrt (\<ge>) (map snd rs)"
proof (cases "index st")
  case None
  with assms show ?thesis by (simp add: search_def)
next
  case (Some ix)
  show ?thesis
  proof (cases "keyword_data st = []")
    case True
    with Some assms show ?thesis by (simp add: search_def)
  next
    case False
    let ?hits = "knn ix (normalize_L2 (encode ext q)) (nat k)"
    from Some assms have s: "search ext st q k = collect (keyword_data st) ?hits"
      using False by (simp add: search_def index_search_def length_normalize_L2)
    from collect_returns [OF False, of ?hits] knn_labels
    obtain rs where rs: "collect (keyword_data st) ?hits = Inr rs" by blast
    from collect_sorted [OF rs knn_sorted]
    have "length rs \<le> nat k" and srt: "sorted_wrt (\<ge>) (map snd rs)"
      by (simp_all add: length_knn)
    with assms(1) have "int (length rs) \<le> k" by linarith
    with s rs srt show ?thesis by simp
  qed
qed

theorem search_at_most_k_sorted_witness:
  "(0::int) < 2
   \<and> index example_store_two = Some \<lparr>ix_d = 1, ix_xb = [[- 1], [1]]\<rparr>
   \<and> ix_d \<lparr>ix_d = 1, ix_xb = [[- 1], [1]]\<rparr> = length (encode example_external_signed ''seo'')
   \<and> (\<exists>rs. search example_external_signed example_store_two ''seo'' 2 = Inr rs
         \<and> rs = [(example_record, 1), (example_record_ppc, - 1)]
         \<and> int (length rs) \<le> 2
         \<and> sorted_wrt (\<ge>) (map snd rs))"
proof -
  have h1: "(0::int) < 2" by simp
  have h2: "\<forall>ix. index example_store_two = Some ix
              \<longrightarrow> ix_d ix = length (encode example_external_signed ''seo'')"
    by (simp add: example_store_two_def example_external_signed_def)
  from search_at_most_k_sorted [OF h1 h2]
  show ?thesis
    by (simp add: search_example_two) (simp add: example_store_two_def example_external_signed_def)
qed

text \<open>
  C10. With \<open>k\<close> above the number of stored records the index pads its answer with the
  label \<open>-1\<close>. That label passes the guard \<^verbatim>\<open>idx < len(self.keyword_data)\<close>, and
  \<^verbatim>\<open>self.keyword_data[-1]\<close> is the last record: every padding place yields an entry.
  On a store that holds one record, \<^verbatim>\<open>search\<close> with \<open>k = 2\<close> returns two entries, the
  record with its score and the same record again with the padding score.
\<close>

theorem search_pads_with_last_record:
  "search example_external (run_adds example_external [[example_record]]) ''seo'' 2 =
     Inr [(example_record, 1), (example_record, - FLT_MAX)]"
  unfolding example_store_by_add by (rule search_example)

subsection \<open>Saving, then loading\<close>

text \<open>
  C4. A store that has an index is saved under a path, on any disk, and a new store
  loads from that path. The load returns, the new store holds the same records in the
  same order, and for every query and every \<open>k\<close> its \<^verbatim>\<open>search\<close> gives what the saved
  store's \<^verbatim>\<open>search\<close> gives, scores included.
\<close>

theorem save_then_load_same_search:
  assumes "index st = Some ix"
  shows "\<exists>st'. load (save dk st path) KeywordVectorStore_init path = Inr st'
           \<and> keyword_data st' = keyword_data st
           \<and> search ext st' q k = search ext st q k"
proof -
  have "load (save dk st path) KeywordVectorStore_init path = Inr st"
    using assms by (simp add: load_def save_def KeywordVectorStore_init_def)
  then show ?thesis by simp
qed

theorem save_then_load_same_search_witness:
  "index example_store = Some \<lparr>ix_d = 1, ix_xb = [[1]]\<rparr>
   \<and> (\<exists>st'. load (save Map.empty example_store ''keyword_store'') KeywordVectorStore_init
              ''keyword_store'' = Inr st'
         \<and> keyword_data st' = [example_record]
         \<and> search example_external st' ''seo'' 2 =
             Inr [(example_record, 1), (example_record, - FLT_MAX)])"
proof -
  have h: "index example_store = Some \<lparr>ix_d = 1, ix_xb = [[1]]\<rparr>"
    by (simp add: example_store_def)
  from save_then_load_same_search [OF h, of Map.empty "''keyword_store''" example_external
      "''seo''" 2]
  show ?thesis using h by (simp add: search_example) (simp add: example_store_def)
qed

text \<open>
  C5, as stated, fails: a path at which the index file is present and the pickle is
  absent has one artifact absent, and \<^verbatim>\<open>load\<close> on a new store reads the index, so the
  store is not left empty.
\<close>

theorem load_one_artifact_counterexample:
  "disk_index_only (''keyword_store'' @ ''.pkl'') = None
   \<and> load disk_index_only KeywordVectorStore_init ''keyword_store'' =
       Inr \<lparr>index = Some \<lparr>ix_d = 1, ix_xb = [[1]]\<rparr>, keyword_data = [], embeddings = []\<rparr>
   \<and> load disk_index_only KeywordVectorStore_init ''keyword_store'' \<noteq>
       Inr KeywordVectorStore_init"
  by (simp add: disk_index_only_def load_def KeywordVectorStore_init_def)

text \<open>
  C5, amended. \<^verbatim>\<open>load\<close> reads each artifact that is present, whether or not the other
  is. With both absent it returns and leaves the store as it was, so a new store stays
  empty. With the index file alone it returns with that index and the records as they
  were; with the pickle alone it returns with those records and embeddings and the index
  as it was. A load that returned, made again from the same disk, returns the same store.
\<close>

theorem load_reads_each_artifact_present:
  "(dk (path @ ''.index'') = None \<and> dk (path @ ''.pkl'') = None
      \<longrightarrow> load dk st path = Inr st)
   \<and> (dk (path @ ''.index'') = Some (IndexFile ix) \<and> dk (path @ ''.pkl'') = None
      \<longrightarrow> load dk st path = Inr (st\<lparr>index := Some ix\<rparr>))
   \<and> (dk (path @ ''.index'') = None \<and> dk (path @ ''.pkl'') = Some (PickleFile kds embs)
      \<longrightarrow> load dk st path = Inr (st\<lparr>keyword_data := kds, embeddings := embs\<rparr>))
   \<and> (load dk st path = Inr st' \<longrightarrow> load dk st' path = Inr st')"
  by (auto simp: load_def split: option.splits stored_file.splits sum.splits)

theorem load_reads_each_artifact_present_witness:
  "load Map.empty KeywordVectorStore_init ''keyword_store'' = Inr KeywordVectorStore_init
   \<and> load disk_index_only KeywordVectorStore_init ''keyword_store'' =
       Inr (KeywordVectorStore_init\<lparr>index := Some \<lparr>ix_d = 1, ix_xb = [[1]]\<rparr>\<rparr>)
   \<and> load disk_pickle_only KeywordVectorStore_init ''keyword_store'' =
       Inr (KeywordVectorStore_init\<lparr>keyword_data := [example_record], embeddings := [[1]]\<rparr>)
   \<and> load disk_index_only
         (KeywordVectorStore_init\<lparr>index := Some \<lparr>ix_d = 1, ix_xb = [[1]]\<rparr>\<rparr>) ''keyword_store'' =
       Inr (KeywordVectorStore_init\<lparr>index := Some \<lparr>ix_d = 1, ix_xb = [[1]]\<rparr>\<rparr>)"
proof -
  let ?ix = "\<lparr>ix_d = 1, ix_xb = [[1]]\<rparr>"
  let ?st = "KeywordVectorStore_init\<lparr>index := Some ?ix\<rparr>"
  have a: "Map.empty (''keyword_store'' @ ''.index'') = (None :: stored_file option)
           \<and> Map.empty (''keyword_store'' @ ''.pkl'') = (None :: stored_file option)"
    by simp
  have b: "disk_index_only (''keyword_store'' @ ''.index'') = Some (IndexFile ?ix)
           \<and> disk_index_only (''keyword_store'' @ ''.pkl'') = None"
    by (simp add: disk_index_only_def)
  have c: "disk_pickle_only (''keyword_store'' @ ''.index'') = None
           \<and> disk_pickle_only (''keyword_store'' @ ''.pkl'') =
               Some (PickleFile [example_record] [[1]])"
    by (simp add: disk_pickle_only_def)
  note t = load_reads_each_artifact_present
  from t [of Map.empty "''keyword_store''" KeywordVectorStore_init] a
  have 1: "load Map.empty KeywordVectorStore_init ''keyword_store'' = Inr KeywordVectorStore_init"
    by blast
  from t [of disk_index_only "''keyword_store''" KeywordVectorStore_init ?ix] b
  have 2: "load disk_index_only KeywordVectorStore_init ''keyword_store'' = Inr ?st"
    by blast
  from t [of disk_pickle_only "''keyword_store''" KeywordVectorStore_init _ "[example_record]"
      "[[1]]"] c
  have 3: "load disk_pickle_only KeywordVectorStore_init ''keyword_store'' =
             Inr (KeywordVectorStore_init\<lparr>keyword_data := [example_record], embeddings := [[1]]\<rparr>)"
    by blast
  from t [of disk_index_only "''keyword_store''" KeywordVectorStore_init _ _ _ ?st] 2
  have 4: "load disk_index_only ?st ''keyword_store'' = Inr ?st"
    by blast
  from 1 2 3 4 show ?thesis by simp
qed


subsection \<open>The metrics fetcher\<close>

lemma map_field_enumerated:
  assumes "\<And>i x. h (g i x) = h' x"
  shows "map h (map (\<lambda>(i, x). g i x) (zip [0..<length xs] xs)) = map h' xs"
proof -
  have "length ns = length xs \<Longrightarrow> map h (map (\<lambda>(i, x). g i x) (zip ns xs)) = map h' xs" for ns
    by (induction ns xs rule: list_induct2) (simp_all add: assms)
  then show ?thesis by simp
qed

text \<open>
  C6. Let an account be bound and let the service answer a list of ideas. Then
  \<^verbatim>\<open>get_keyword_ideas\<close> returns one record for each idea, in order, and in each
  record the two CPC fields and the two top-of-page fields are the idea's bid in micros
  divided by 1000000, or 0 where the bid is unset; the search volume is the idea's
  monthly searches, or 0 where unset; the impression share is 0. The division is that
  of the reals. The instance after the theorem has a high bid of 2500000 micros and all
  other numbers unset: the CPC is 5/2 and the other numbers are 0.
\<close>

theorem bids_converted_missing_numbers_zero:
  assumes "customer_id ex = Some cid" and "cid \<noteq> []"
    and "generate_keyword_ideas ext (ideas_request cid keywords location_ids language_id)
           = Inr ideas"
  shows "\<exists>kds. fst (get_keyword_ideas ext ex keywords location_ids language_id) = Inr kds
     \<and> map cpc_high kds =
         map (\<lambda>i. case high_top_of_page_bid_micros (keyword_idea_metrics i) of
                    None \<Rightarrow> 0 | Some n \<Rightarrow> real_of_int n / 1000000) ideas
     \<and> map cpc_low kds =
         map (\<lambda>i. case low_top_of_page_bid_micros (keyword_idea_metrics i) of
                    None \<Rightarrow> 0 | Some n \<Rightarrow> real_of_int n / 1000000) ideas
     \<and> map top_of_page_cpc_high kds =
         map (\<lambda>i. case high_top_of_page_bid_micros (keyword_idea_metrics i) of
                    None \<Rightarrow> 0 | Some n \<Rightarrow> real_of_int n / 1000000) ideas
     \<and> map top_of_page_cpc_low kds =
         map (\<lambda>i. case low_top_of_page_bid_micros (keyword_idea_metrics i) of
                    None \<Rightarrow> 0 | Some n \<Rightarrow> real_of_int n / 1000000) ideas
     \<and> map search_volume kds =
         map (\<lambda>i. case avg_monthly_searches (keyword_idea_metrics i) of
                    None \<Rightarrow> 0 | Some n \<Rightarrow> n) ideas
     \<and> map ad_impression_share kds = map (\<lambda>i. 0) ideas"
proof -
  let ?kds = "map (\<lambda>(i, idea). keyword_data_of_idea (datetime_now ext i) idea)
                (zip [0..<length ideas] ideas)"
  have r: "fst (get_keyword_ideas ext ex keywords location_ids language_id) = Inr ?kds"
    using assms by (simp add: get_keyword_ideas_def Let_def)
  have m: "micros_if_set x = (case x of None \<Rightarrow> 0 | Some n \<Rightarrow> real_of_int n / 1000000)" for x
    by (simp add: micros_if_set_def split: option.splits)
  have z: "or_zero x = (case x of None \<Rightarrow> 0 | Some n \<Rightarrow> n)" for x
    by (simp add: or_zero_def split: option.splits)
  have f1: "map cpc_high ?kds =
         map (\<lambda>i. case high_top_of_page_bid_micros (keyword_idea_metrics i) of
                    None \<Rightarrow> 0 | Some n \<Rightarrow> real_of_int n / 1000000) ideas"
    by (rule map_field_enumerated) (simp add: keyword_data_of_idea_def m)
  have f2: "map cpc_low ?kds =
         map (\<lambda>i. case low_top_of_page_bid_micros (keyword_idea_metrics i) of
                    None \<Rightarrow> 0 | Some n \<Rightarrow> real_of_int n / 1000000) ideas"
    by (rule map_field_enumerated) (simp add: keyword_data_of_idea_def m)
  have f3: "map top_of_page_cpc_high ?kds =
         map (\<lambda>i. case high_top_of_page_bid_micros (keyword_idea_metrics i) of
                    None \<Rightarrow> 0 | Some n \<Rightarrow> real_of_int n / 1000000) ideas"
    by (rule map_field_enumerated) (simp add: keyword_data_of_idea_def m)
  have f4: "map top_of_page_cpc_low ?kds =
         map (\<lambda>i. case low_top_of_page_bid_micros (keyword_idea_metrics i) of
                    None \<Rightarrow> 0 | Some n \<Rightarrow> real_of_int n / 1000000) ideas"
    by (rule map_field_enumerated) (simp add: keyword_data_of_idea_def m)
  have f5: "map search_volume ?kds =
         map (\<lambda>i. case avg_monthly_searches (keyword_idea_metrics i) of
                    None \<Rightarrow> 0 | Some n \<Rightarrow> n) ideas"
    by (rule map_field_enumerated) (simp add: keyword_data_of_idea_def z)
  have f6: "map ad_impression_share ?kds = map (\<lambda>i. 0) ideas"
    by (rule map_field_enumerated) (simp add: keyword_data_of_idea_def)
  show ?thesis
    by (rule exI [of _ ?kds]) (simp only: r f1 f2 f3 f4 f5 f6 simp_thms)
qed

theorem bids_converted_missing_numbers_zero_witness:
  "customer_id (set_customer_id GoogleAdsKeywordExtractor_init ''123-456-7890'')
     = Some ''1234567890''
   \<and> ''1234567890'' \<noteq> []
   \<and> generate_keyword_ideas example_external
       (ideas_request ''1234567890'' [''seo''] None ''1000'') = Inr [example_idea]
   \<and> (\<exists>kds. fst (get_keyword_ideas example_external
                 (set_customer_id GoogleAdsKeywordExtractor_init ''123-456-7890'')
                 [''seo''] None ''1000'') = Inr kds
        \<and> map cpc_high kds = [5 / 2] \<and> map cpc_low kds = [0]
        \<and> map top_of_page_cpc_high kds = [5 / 2] \<and> map top_of_page_cpc_low kds = [0]
        \<and> map search_volume kds = [0] \<and> map ad_impression_share kds = [0])"
proof -
  have h1: "customer_id (set_customer_id GoogleAdsKeywordExtractor_init ''123-456-7890'')
              = Some ''1234567890''"
    by (simp add: set_customer_id_def GoogleAdsKeywordExtractor_init_def)
  have h2: "''1234567890'' \<noteq> []" by simp
  have h3: "generate_keyword_ideas example_external
              (ideas_request ''1234567890'' [''seo''] None ''1000'') = Inr [example_idea]"
    by (simp add: example_external_def)
  from bids_converted_missing_numbers_zero [OF h1 h2 h3]
  show ?thesis using h1 h3 by (simp add: example_idea_def)
qed

text \<open>
  C7. On an extractor to which no customer id was set, \<^verbatim>\<open>get_keyword_ideas\<close> raises
  \<^verbatim>\<open>ValueError\<close> with the text that the customer id must be set, whatever the seed
  keywords, locations and language, and it has sent no request to the service. The
  \<^verbatim>\<open>ValueError\<close> is the source's exception for the missing binding.
\<close>

theorem fetch_before_customer_id_raises:
  "get_keyword_ideas ext GoogleAdsKeywordExtractor_init keywords location_ids language_id =
     (Inl (ValueError ''Customer ID must be set before making API calls''), [])"
  by (simp add: get_keyword_ideas_def GoogleAdsKeywordExtractor_init_def)

subsection \<open>The query engine and the statistics\<close>

text \<open>
  C8. When \<^verbatim>\<open>query\<close> has built its request and the chat-completion call on that request
  raises, \<^verbatim>\<open>query\<close> returns a text and raises nothing: the text is
  \<^verbatim>\<open>Error generating response: \<close> followed by the text of the exception.
\<close>

theorem completion_failure_returns_text:
  assumes "query_request ext st user_query max_keywords include_recommendations = Inr request"
    and "chat_completions_create ext request = Inl e"
  shows "query ext st user_query max_keywords include_recommendations =
           Inr (''Error generating response: '' @ e)"
  using assms by (simp add: query_def)

lemma search_example_one:
  "search example_external example_store q 1 = Inr [(example_record, 1)]"
  by (simp add: search_def example_store_def example_external_def index_search_def
      normalize_L2_def knn_def inner_product_def FLT_MAX_def py_index_def Let_def)

theorem completion_failure_returns_text_witness:
  "(\<exists>request. query_request example_external example_store ''seo'' 1 True = Inr request
      \<and> chat_completions_create example_external request = Inl ''Connection error.'')
   \<and> query example_external example_store ''seo'' 1 True =
       Inr ''Error generating response: Connection error.''"
proof -
  obtain request where
    r: "query_request example_external example_store ''seo'' 1 True = Inr request"
    by (simp add: query_request_def search_example_one)
  have c: "chat_completions_create example_external request = Inl ''Connection error.''"
    by (simp add: example_external_def)
  from completion_failure_returns_text [OF r c] r c
  show ?thesis by auto
qed

text \<open>
  C9. On a store with no records \<^verbatim>\<open>get_keyword_stats\<close> returns the dictionary whose
  only item is \<^verbatim>\<open>total_keywords\<close> with value 0.
\<close>

theorem stats_of_no_records:
  assumes "keyword_data st = []"
  shows "get_keyword_stats st = [(''total_keywords'', IntStat 0)]"
  using assms by (simp add: get_keyword_stats_def)

theorem stats_of_no_records_witness:
  "keyword_data KeywordVectorStore_init = []
   \<and> get_keyword_stats KeywordVectorStore_init = [(''total_keywords'', IntStat 0)]"
proof -
  have h: "keyword_data KeywordVectorStore_init = []"
    by (simp add: KeywordVectorStore_init_def)
  from stats_of_no_records [OF h] h show ?thesis by simp
qed

end
